theory Spec2Isabelle
  imports Complex_Main "HOL-Library.AList"
begin

section \<open>Numeric values and small arrays\<close>

text \<open>
  Array entries are modelled in exact real arithmetic. A quotient computed by numpy is
  either a finite number, an infinity (a non-zero numerator over zero) or NaN (zero over
  zero); numpy only warns in the last two cases and never raises. The real numbers have
  no signed zero, so one constructor stands for both infinities.
\<close>

datatype npfloat = Finite real | Inf | NaN

definition np_true_divide :: "real \<Rightarrow> real \<Rightarrow> npfloat" where
  "np_true_divide n d = (if d = 0 then (if n = 0 then NaN else Inf) else Finite (n / d))"

fun is_finite :: "npfloat \<Rightarrow> bool" where
  "is_finite (Finite r) = True"
| "is_finite Inf = False"
| "is_finite NaN = False"

type_synonym vec2 = "real \<times> real"
type_synonym vec3 = "real \<times> real \<times> real"
type_synonym vec4 = "real \<times> real \<times> real \<times> real"

text \<open>A camera matrix is a 3x4 array (rows 0, 1, 2); the DLT system is a 4x4 array.\<close>

type_synonym cam_matrix = "vec4 \<times> vec4 \<times> vec4"
type_synonym mat4 = "vec4 \<times> vec4 \<times> vec4 \<times> vec4"
type_synonym point3 = "npfloat \<times> npfloat \<times> npfloat"

fun row0 :: "cam_matrix \<Rightarrow> vec4" where
  "row0 (r0, r1, r2) = r0"

fun row1 :: "cam_matrix \<Rightarrow> vec4" where
  "row1 (r0, r1, r2) = r1"

fun row2 :: "cam_matrix \<Rightarrow> vec4" where
  "row2 (r0, r1, r2) = r2"

text \<open>\<open>s * row\<close> and \<open>row - row\<close> on numpy rows act entry by entry.\<close>

fun scale4 :: "real \<Rightarrow> vec4 \<Rightarrow> vec4" where
  "scale4 s (a, b, c, d) = (s * a, s * b, s * c, s * d)"

fun sub4 :: "vec4 \<Rightarrow> vec4 \<Rightarrow> vec4" where
  "sub4 (a, b, c, d) (a', b', c', d') = (a - a', b - b', c - c', d - d')"

fun dot4 :: "vec4 \<Rightarrow> vec4 \<Rightarrow> real" where
  "dot4 (a, b, c, d) (a', b', c', d') = a * a' + b * b' + c * c' + d * d'"

fun mat_vec :: "mat4 \<Rightarrow> vec4 \<Rightarrow> vec4" where
  "mat_vec (r0, r1, r2, r3) v = (dot4 r0 v, dot4 r1 v, dot4 r2 v, dot4 r3 v)"

definition norm_sq :: "vec4 \<Rightarrow> real" where
  "norm_sq v = dot4 v v"

section \<open>Camera model (stereo\_utils.py)\<close>

definition create_stereo_camera_matrices ::
  "real \<Rightarrow> real \<Rightarrow> real \<Rightarrow> real \<Rightarrow> cam_matrix \<times> cam_matrix" where
  "create_stereo_camera_matrices baseline focal_length cx cy =
     (let left_camera_matrix =
            ((focal_length, 0, cx, 0),
             (0, focal_length, cy, 0),
             (0, 0, 1, 0));
          right_camera_matrix =
            ((focal_length, 0, cx, - focal_length * baseline),
             (0, focal_length, cy, 0),
             (0, 0, 1, 0))
      in (left_camera_matrix, right_camera_matrix))"

text \<open>
  The pinhole projection of the data model: a camera matrix maps the homogeneous point
  \<open>(X, Y, Z, 1)\<close> to homogeneous image coordinates, and the pixel is obtained by dividing
  by the third one. The repository has no such function; it is the notion the round-trip
  law of the triangulation is stated with. The projection is undefined (\<open>None\<close>) when
  the third homogeneous coordinate vanishes.
\<close>

definition project :: "cam_matrix \<Rightarrow> vec3 \<Rightarrow> vec2 option" where
  "project M P =
     (case P of (X, Y, Z) \<Rightarrow>
        let h = (X, Y, Z, 1);
            u = dot4 (row0 M) h; v = dot4 (row1 M) h; w = dot4 (row2 M) h
        in if w = 0 then None else Some (u / w, v / w))"

section \<open>The singular value decomposition as an external routine\<close>

text \<open>
  \<open>np.linalg.svd\<close> is a library routine. The triangulation only reads \<open>Vt[-1]\<close>, the
  right-singular vector of the smallest singular value, so the routine enters the model
  as a parameter \<open>svd_last :: mat4 \<Rightarrow> vec4\<close> giving that row. What the library promises
  about the row, in exact arithmetic, is that it is a unit vector at which \<open>|A v|\<close> is
  least among unit vectors.
\<close>

definition is_last_right_singular_vector :: "mat4 \<Rightarrow> vec4 \<Rightarrow> bool" where
  "is_last_right_singular_vector A v \<longleftrightarrow>
     norm_sq v = 1 \<and> (\<forall>u. norm_sq u = 1 \<longrightarrow> norm_sq (mat_vec A v) \<le> norm_sq (mat_vec A u))"

section \<open>Triangulation of one point (triangulate\_3d\_pose.py)\<close>

definition triangulate_point_A :: "vec2 \<Rightarrow> vec2 \<Rightarrow> cam_matrix \<Rightarrow> cam_matrix \<Rightarrow> mat4" where
  "triangulate_point_A p1 p2 cam_matrix1 cam_matrix2 =
     (sub4 (scale4 (fst p1) (row2 cam_matrix1)) (row0 cam_matrix1),
      sub4 (scale4 (snd p1) (row2 cam_matrix1)) (row1 cam_matrix1),
      sub4 (scale4 (fst p2) (row2 cam_matrix2)) (row0 cam_matrix2),
      sub4 (scale4 (snd p2) (row2 cam_matrix2)) (row1 cam_matrix2))"

text \<open>\<open>X = X / X[3]\<close> followed by \<open>X[:3]\<close>: the division is unconditional.\<close>

fun dehomogenize :: "vec4 \<Rightarrow> point3" where
  "dehomogenize (a, b, c, d) = (np_true_divide a d, np_true_divide b d, np_true_divide c d)"

definition triangulate_point ::
  "(mat4 \<Rightarrow> vec4) \<Rightarrow> vec2 \<Rightarrow> vec2 \<Rightarrow> cam_matrix \<Rightarrow> cam_matrix \<Rightarrow> point3" where
  "triangulate_point svd_last p1 p2 cam_matrix1 cam_matrix2 =
     (let A = triangulate_point_A p1 p2 cam_matrix1 cam_matrix2;
          X = svd_last A
      in dehomogenize X)"

section \<open>Triangulation of point arrays (stereo\_utils.py)\<close>

definition triangulate_points_A :: "vec2 \<Rightarrow> vec2 \<Rightarrow> cam_matrix \<Rightarrow> cam_matrix \<Rightarrow> mat4" where
  "triangulate_points_A pt_left pt_right camera_matrix_left camera_matrix_right =
     (sub4 (scale4 (fst pt_left) (row2 camera_matrix_left)) (row0 camera_matrix_left),
      sub4 (scale4 (snd pt_left) (row2 camera_matrix_left)) (row1 camera_matrix_left),
      sub4 (scale4 (fst pt_right) (row2 camera_matrix_right)) (row0 camera_matrix_right),
      sub4 (scale4 (snd pt_right) (row2 camera_matrix_right)) (row1 camera_matrix_right))"

text \<open>The loop runs over \<open>zip(points_left, points_right)\<close> and appends one point per pair.\<close>

fun triangulate_points_loop ::
  "(mat4 \<Rightarrow> vec4) \<Rightarrow> (vec2 \<times> vec2) list \<Rightarrow> cam_matrix \<Rightarrow> cam_matrix \<Rightarrow> point3 list \<Rightarrow> point3 list"
  where
  "triangulate_points_loop svd_last [] camera_matrix_left camera_matrix_right points_3d = points_3d"
| "triangulate_points_loop svd_last ((pt_left, pt_right) # rest) camera_matrix_left
       camera_matrix_right points_3d =
     (let A = triangulate_points_A pt_left pt_right camera_matrix_left camera_matrix_right;
          X = svd_last A
      in triangulate_points_loop svd_last rest camera_matrix_left camera_matrix_right
           (points_3d @ [dehomogenize X]))"

definition triangulate_points ::
  "(mat4 \<Rightarrow> vec4) \<Rightarrow> vec2 list \<Rightarrow> vec2 list \<Rightarrow> cam_matrix \<Rightarrow> cam_matrix \<Rightarrow> point3 list" where
  "triangulate_points svd_last points_left points_right camera_matrix_left camera_matrix_right =
     triangulate_points_loop svd_last (zip points_left points_right)
       camera_matrix_left camera_matrix_right []"

section \<open>Triangulation of whole sessions (triangulate\_3d\_pose.py)\<close>

text \<open>
  A joint as the session file stores it: \<open>{"x", "y", "z", "vis"}\<close>. A frame is a Python
  dictionary from joint name to joint; dictionaries keep insertion order, so a frame is an
  association list (with distinct keys), and a session is a list of frames.
\<close>

record joint =
  joint_x :: real
  joint_y :: real
  joint_z :: real
  joint_vis :: real

type_synonym frame = "(string \<times> joint) list"
type_synonym joints_3d = "(string \<times> point3) list"

datatype py_error = KeyError string | IndexError | AttributeError | TypeError

text \<open>\<open>d[k]\<close> on a dictionary raises \<open>KeyError\<close> for a missing key.\<close>

definition dict_getitem :: "(string \<times> 'v) list \<Rightarrow> string \<Rightarrow> py_error + 'v" where
  "dict_getitem d k = (case map_of d k of None \<Rightarrow> Inl (KeyError k) | Some v \<Rightarrow> Inr v)"

text \<open>
  The inner loop \<open>for joint_name in frame1.keys()\<close>: the first argument is the list of
  keys still to visit, the last one the dictionary \<open>joints_3d\<close> built so far.
\<close>

fun joints_loop ::
  "(mat4 \<Rightarrow> vec4) \<Rightarrow> string list \<Rightarrow> frame \<Rightarrow> frame \<Rightarrow> cam_matrix \<Rightarrow> cam_matrix \<Rightarrow>
   joints_3d \<Rightarrow> py_error + joints_3d" where
  "joints_loop svd_last [] frame1 frame2 cam_matrix1 cam_matrix2 joints_3d = Inr joints_3d"
| "joints_loop svd_last (joint_name # rest) frame1 frame2 cam_matrix1 cam_matrix2 joints_3d =
     (if map_of frame2 joint_name = None
      then joints_loop svd_last rest frame1 frame2 cam_matrix1 cam_matrix2 joints_3d
      else
        (case dict_getitem frame1 joint_name of
           Inl e \<Rightarrow> Inl e
         | Inr j1 \<Rightarrow>
            (case dict_getitem frame2 joint_name of
               Inl e \<Rightarrow> Inl e
             | Inr j2 \<Rightarrow>
                (let p1 = (joint_x j1, joint_y j1);
                     p2 = (joint_x j2, joint_y j2);
                     point_3d = triangulate_point svd_last p1 p2 cam_matrix1 cam_matrix2
                 in joints_loop svd_last rest frame1 frame2 cam_matrix1 cam_matrix2
                      (AList.update joint_name point_3d joints_3d)))))"

text \<open>The outer loop \<open>for frame1, frame2 in zip(view1_data, view2_data)\<close>.\<close>

fun frames_loop ::
  "(mat4 \<Rightarrow> vec4) \<Rightarrow> (frame \<times> frame) list \<Rightarrow> cam_matrix \<Rightarrow> cam_matrix \<Rightarrow>
   joints_3d list \<Rightarrow> py_error + joints_3d list" where
  "frames_loop svd_last [] cam_matrix1 cam_matrix2 triangulated_poses = Inr triangulated_poses"
| "frames_loop svd_last ((frame1, frame2) # rest) cam_matrix1 cam_matrix2 triangulated_poses =
     (case joints_loop svd_last (map fst frame1) frame1 frame2 cam_matrix1 cam_matrix2 [] of
        Inl e \<Rightarrow> Inl e
      | Inr joints_3d \<Rightarrow>
          frames_loop svd_last rest cam_matrix1 cam_matrix2 (triangulated_poses @ [joints_3d]))"

definition triangulate_all_frames ::
  "(mat4 \<Rightarrow> vec4) \<Rightarrow> frame list \<Rightarrow> frame list \<Rightarrow> cam_matrix \<Rightarrow> cam_matrix \<Rightarrow>
   py_error + joints_3d list" where
  "triangulate_all_frames svd_last view1_data view2_data cam_matrix1 cam_matrix2 =
     frames_loop svd_last (zip view1_data view2_data) cam_matrix1 cam_matrix2 []"

section \<open>Depth from disparity (stereo\_utils.py)\<close>

text \<open>
  A disparity map is a two-dimensional numpy array. Its element type matters to the masked
  assignment \<open>disparity_masked[disparity_masked == 0] = 0.1\<close>: numpy converts the assigned
  value to the array's element type, so an integer array (the block matcher of
  \<open>compute_disparity_map\<close> returns 16-bit integers) stores \<open>0.1\<close> truncated towards zero.
\<close>

datatype disparity_map = IntArray "int list list" | FloatArray "real list list"

definition truncate_to_int :: "real \<Rightarrow> int" where
  "truncate_to_int v = (if 0 \<le> v then \<lfloor>v\<rfloor> else \<lceil>v\<rceil>)"

fun assign_where_zero :: "disparity_map \<Rightarrow> real \<Rightarrow> disparity_map" where
  "assign_where_zero (FloatArray rows) v =
     FloatArray (map (map (\<lambda>d. if d = 0 then v else d)) rows)"
| "assign_where_zero (IntArray rows) v =
     IntArray (map (map (\<lambda>d. if d = 0 then truncate_to_int v else d)) rows)"

fun scalar_divide :: "real \<Rightarrow> disparity_map \<Rightarrow> npfloat list list" where
  "scalar_divide s (FloatArray rows) = map (map (\<lambda>d. np_true_divide s d)) rows"
| "scalar_divide s (IntArray rows) = map (map (\<lambda>d. np_true_divide s (real_of_int d))) rows"

definition depth_from_disparity :: "disparity_map \<Rightarrow> real \<Rightarrow> real \<Rightarrow> npfloat list list" where
  "depth_from_disparity disparity baseline focal_length =
     (let disparity_masked = assign_where_zero disparity (1 / 10);
          depth = scalar_divide (baseline * focal_length) disparity_masked
      in depth)"

text \<open>
  The formula of the specification, \<open>baseline * focalLength / max(disparity, epsilon)\<close>
  applied to every entry, for comparison with the function above.
\<close>

definition depth_formula_spec :: "real \<Rightarrow> real list list \<Rightarrow> real \<Rightarrow> real \<Rightarrow> npfloat list list" where
  "depth_formula_spec epsilon rows baseline focal_length =
     map (map (\<lambda>d. np_true_divide (baseline * focal_length) (max d epsilon))) rows"

section \<open>Camera calibration (camera\_calibration.py)\<close>

text \<open>
  JSON values, as \<open>json.load\<close> returns them and \<open>json.dump\<close> writes them. A numpy array is
  represented by the nested list \<open>tolist()\<close> gives for it; its shape is read off the
  nesting.
\<close>

datatype json = JNull | JBool bool | JNum real | JStr string | JArr "json list"
  | JObj "(string \<times> json) list"

datatype ndarray = NdArray (tolist: json)

fun json_shape :: "json \<Rightarrow> nat list" where
  "json_shape (JArr []) = [0]"
| "json_shape (JArr (x # xs)) = Suc (length xs) # json_shape x"
| "json_shape _ = []"

definition shape :: "ndarray \<Rightarrow> nat list" where
  "shape a = json_shape (tolist a)"

record calibrator =
  chessboard_size :: "nat \<times> nat"
  square_size :: real
  objp :: ndarray
  objpoints :: "ndarray list"
  imgpoints :: "ndarray list"
  camera_matrix :: "ndarray option"
  dist_coeffs :: "ndarray option"
  rvecs :: "ndarray list option"
  tvecs :: "ndarray list option"

text \<open>
  The constructor. The object points are the grid \<open>(i, j, 0)\<close>, \<open>i\<close> running fastest,
  scaled by the square size.
\<close>

definition calibrator_init :: "nat \<times> nat \<Rightarrow> real \<Rightarrow> calibrator" where
  "calibrator_init board sq =
     \<lparr> chessboard_size = board, square_size = sq,
       objp = NdArray (JArr (concat (map (\<lambda>j. map (\<lambda>i.
                JArr [JNum (real i * sq), JNum (real j * sq), JNum (0 * sq)])
                [0 ..< fst board]) [0 ..< snd board]))),
       objpoints = [], imgpoints = [],
       camera_matrix = None, dist_coeffs = None, rvecs = None, tvecs = None \<rparr>"

text \<open>
  Corner detection and refinement (\<open>cv2.findChessboardCorners\<close>, \<open>cv2.cornerSubPix\<close>) and
  the drawing of the corners are library routines: the parameter \<open>find_corners\<close> gives, for
  an accepted image, the refined corner array and the annotated image.
\<close>

definition add_calibration_image ::
  "('img \<Rightarrow> (ndarray \<times> 'img) option) \<Rightarrow> 'img \<Rightarrow> calibrator \<Rightarrow>
   (bool \<times> 'img) \<times> calibrator" where
  "add_calibration_image find_corners img self =
     (case find_corners img of
        Some (corners, annotated) \<Rightarrow>
          ((True, annotated),
           self\<lparr> objpoints := objpoints self @ [objp self],
                 imgpoints := imgpoints self @ [corners] \<rparr>)
      | None \<Rightarrow> ((False, img), self))"

text \<open>
  \<open>calibrate\<close> returns \<open>False\<close> after printing a message, or whatever the solver
  \<open>cv2.calibrateCamera\<close> returns first (the reprojection error, a float). The solver is a
  parameter; it may raise. The result carries the returned value, the lines printed and
  the calibrator afterwards.
\<close>

datatype pyval = PyBool bool | PyFloat real

type_synonym solver_result = "real \<times> ndarray \<times> ndarray \<times> ndarray list \<times> ndarray list"

definition calibrate ::
  "(ndarray list \<Rightarrow> ndarray list \<Rightarrow> nat list \<Rightarrow> py_error + solver_result) \<Rightarrow> nat list \<Rightarrow>
   calibrator \<Rightarrow> py_error + (pyval \<times> string list \<times> calibrator)" where
  "calibrate calibrateCamera image_shape self =
     (if length (objpoints self) < 5
      then Inr (PyBool False, [''Need at least 5 calibration images''], self)
      else
        (case calibrateCamera (objpoints self) (imgpoints self) (rev image_shape) of
           Inl e \<Rightarrow> Inl e
         | Inr (ret, cm, dc, rv, tv) \<Rightarrow>
             Inr (PyFloat ret, [],
                  self\<lparr> camera_matrix := Some cm, dist_coeffs := Some dc,
                        rvecs := Some rv, tvecs := Some tv \<rparr>)))"

text \<open>
  \<open>save_calibration\<close>: the result is the returned flag and the JSON document written
  (\<open>None\<close> when no file is written). Building the dictionary raises when
  \<open>dist_coeffs\<close> is \<open>None\<close> or when \<open>imgpoints\<close> is empty. Failures of the file system
  are outside the model.
\<close>

definition save_calibration :: "calibrator \<Rightarrow> py_error + (bool \<times> json option)" where
  "save_calibration self =
     (case camera_matrix self of
        None \<Rightarrow> Inr (False, None)
      | Some cm \<Rightarrow>
         (case dist_coeffs self of
            None \<Rightarrow> Inl AttributeError
          | Some dc \<Rightarrow>
             (case imgpoints self of
                [] \<Rightarrow> Inl IndexError
              | corners # _ \<Rightarrow>
                  (let calibration_data = JObj
                         [(''camera_matrix'', tolist cm),
                          (''dist_coeffs'', tolist dc),
                          (''image_shape'', JArr (map (\<lambda>n. JNum (real n)) (take 2 (shape corners))))]
                   in Inr (True, Some calibration_data)))))"

text \<open>
  \<open>load_calibration\<close>. The file as read is \<open>None\<close> when opening or parsing it raises.
  Subscripting the parsed value with a string raises unless it is an object holding the
  key. \<open>np.array\<close> is a library routine and a parameter (\<open>None\<close> when it raises). Every
  exception is caught by the \<open>except\<close> clause, which prints and returns \<open>False\<close>; the
  assignments made before it stay.
\<close>

fun json_getitem :: "json \<Rightarrow> string \<Rightarrow> json option" where
  "json_getitem (JObj kvs) k = map_of kvs k"
| "json_getitem _ k = None"

definition load_calibration ::
  "(json \<Rightarrow> ndarray option) \<Rightarrow> json option \<Rightarrow> calibrator \<Rightarrow> bool \<times> calibrator" where
  "load_calibration np_array file self =
     (case file of
        None \<Rightarrow> (False, self)
      | Some data \<Rightarrow>
         (case json_getitem data ''camera_matrix'' of
            None \<Rightarrow> (False, self)
          | Some cmj \<Rightarrow>
             (case np_array cmj of
                None \<Rightarrow> (False, self)
              | Some cm \<Rightarrow>
                 (let self1 = self\<lparr> camera_matrix := Some cm \<rparr> in
                  (case json_getitem data ''dist_coeffs'' of
                     None \<Rightarrow> (False, self1)
                   | Some dcj \<Rightarrow>
                      (case np_array dcj of
                         None \<Rightarrow> (False, self1)
                       | Some dc \<Rightarrow> (True, self1\<lparr> dist_coeffs := Some dc \<rparr>)))))))"

section \<open>Properties of the camera model\<close>

text \<open>
  Claim C3. For every baseline, focal length and principal point the rig builder returns
  exactly the left matrix \<open>[[f,0,cx,0],[0,f,cy,0],[0,0,1,0]]\<close> and a right matrix that
  differs from it only in row 0, column 3, which holds \<open>-f * b\<close>; for baseline 0 the two
  matrices are equal. (No condition on the focal length is needed.)
\<close>

theorem create_stereo_camera_matrices_exact:
  "create_stereo_camera_matrices b f cx cy =
     (((f, 0, cx, 0), (0, f, cy, 0), (0, 0, 1, 0)),
      ((f, 0, cx, - f * b), (0, f, cy, 0), (0, 0, 1, 0)))
   \<and> row1 (snd (create_stereo_camera_matrices b f cx cy)) =
       row1 (fst (create_stereo_camera_matrices b f cx cy))
   \<and> row2 (snd (create_stereo_camera_matrices b f cx cy)) =
       row2 (fst (create_stereo_camera_matrices b f cx cy))
   \<and> snd (create_stereo_camera_matrices 0 f cx cy) = fst (create_stereo_camera_matrices 0 f cx cy)"
  by (simp add: create_stereo_camera_matrices_def)

section \<open>The two DLT implementations\<close>

lemma triangulate_points_loop_eq:
  "triangulate_points_loop svd_last ps CL CR acc =
     acc @ map (\<lambda>(pl, pr). triangulate_point svd_last pl pr CL CR) ps"
proof (induction ps arbitrary: acc)
  case Nil
  show ?case by simp
next
  case (Cons p ps)
  obtain pl pr where p: "p = (pl, pr)" by (cases p)
  show ?case
    unfolding p
    by (simp add: Cons.IH triangulate_point_def triangulate_points_A_def
        triangulate_point_A_def)
qed

text \<open>
  Claim C10. The two DLT implementations agree: for every pair of 2D points and every
  pair of 3x4 camera matrices they build the same 4x4 coefficient matrix, and, given the
  same SVD routine, \<open>triangulate_points\<close> returns for each pair of its input arrays
  exactly the point \<open>triangulate_point\<close> returns for that pair.
\<close>

theorem dlt_implementations_agree:
  "triangulate_points_A p1 p2 M1 M2 = triangulate_point_A p1 p2 M1 M2
   \<and> triangulate_points svd_last [p1] [p2] M1 M2 = [triangulate_point svd_last p1 p2 M1 M2]
   \<and> triangulate_points svd_last ps1 ps2 M1 M2 =
       map (\<lambda>(pl, pr). triangulate_point svd_last pl pr M1 M2) (zip ps1 ps2)"
proof (intro conjI)
  show "triangulate_points_A p1 p2 M1 M2 = triangulate_point_A p1 p2 M1 M2"
    by (simp add: triangulate_points_A_def triangulate_point_A_def)
  show "triangulate_points svd_last [p1] [p2] M1 M2 = [triangulate_point svd_last p1 p2 M1 M2]"
    by (simp add: triangulate_points_def triangulate_points_loop_eq)
  show "triangulate_points svd_last ps1 ps2 M1 M2 =
          map (\<lambda>(pl, pr). triangulate_point svd_last pl pr M1 M2) (zip ps1 ps2)"
    by (simp add: triangulate_points_def triangulate_points_loop_eq)
qed

section \<open>The SVD contract and the null space of the rig's system\<close>

lemma norm_sq_nonneg: "0 \<le> norm_sq v"
  by (cases v) (simp add: norm_sq_def)

lemma norm_sq_zero_iff: "norm_sq v = 0 \<longleftrightarrow> v = (0, 0, 0, 0)"
proof (cases v)
  case (fields a b c d)
  have "a * a + b * b + c * c + d * d = 0 \<longleftrightarrow> a = 0 \<and> b = 0 \<and> c = 0 \<and> d = 0"
  proof
    assume h: "a * a + b * b + c * c + d * d = 0"
    have "0 \<le> a * a" "0 \<le> b * b" "0 \<le> c * c" "0 \<le> d * d" by simp_all
    with h have "a * a = 0" "b * b = 0" "c * c = 0" "d * d = 0" by linarith+
    then show "a = 0 \<and> b = 0 \<and> c = 0 \<and> d = 0" by simp
  qed simp
  then show ?thesis by (simp add: fields norm_sq_def)
qed

lemma singular_vector_null:
  assumes "is_last_right_singular_vector A v" and "norm_sq u = 1" and "mat_vec A u = (0, 0, 0, 0)"
  shows "mat_vec A v = (0, 0, 0, 0)"
proof -
  from assms(1,2) have "norm_sq (mat_vec A v) \<le> norm_sq (mat_vec A u)"
    unfolding is_last_right_singular_vector_def by blast
  also have "\<dots> = 0" by (simp add: assms(3) norm_sq_def)
  finally have "norm_sq (mat_vec A v) = 0" using norm_sq_nonneg [of "mat_vec A v"] by linarith
  then show ?thesis by (simp add: norm_sq_zero_iff)
qed

lemma null_vector_is_singular:
  assumes "norm_sq v = 1" and "mat_vec A v = (0, 0, 0, 0)"
  shows "is_last_right_singular_vector A v"
  unfolding is_last_right_singular_vector_def
proof (intro conjI allI impI)
  show "norm_sq v = 1" by (rule assms(1))
next
  fix u :: vec4
  have "norm_sq (mat_vec A v) = 0" by (simp add: assms(2) norm_sq_def)
  then show "norm_sq (mat_vec A v) \<le> norm_sq (mat_vec A u)"
    using norm_sq_nonneg [of "mat_vec A u"] by simp
qed

lemma rig_projections:
  assumes "Z \<noteq> 0"
  shows "project (fst (create_stereo_camera_matrices b f cx cy)) (X, Y, Z) =
           Some ((f * X + cx * Z) / Z, (f * Y + cy * Z) / Z)"
    and "project (snd (create_stereo_camera_matrices b f cx cy)) (X, Y, Z) =
           Some ((f * X + cx * Z - f * b) / Z, (f * Y + cy * Z) / Z)"
  using assms by (simp_all add: project_def create_stereo_camera_matrices_def)

lemma rig_projection_defined:
  "project (fst (create_stereo_camera_matrices b f cx cy)) (X, Y, Z) = Some p \<Longrightarrow> Z \<noteq> 0"
  by (auto simp add: project_def create_stereo_camera_matrices_def split: if_splits)

lemma rig_dlt_matrix:
  assumes "Z \<noteq> 0"
  shows "triangulate_point_A ((f * X + cx * Z) / Z, (f * Y + cy * Z) / Z)
           ((f * X + cx * Z - f * b) / Z, (f * Y + cy * Z) / Z)
           (fst (create_stereo_camera_matrices b f cx cy))
           (snd (create_stereo_camera_matrices b f cx cy)) =
         ((- f, 0, f * X / Z, 0),
          (0, - f, f * Y / Z, 0),
          (- f, 0, f * (X - b) / Z, f * b),
          (0, - f, f * Y / Z, 0))"
  using assms
  by (simp add: triangulate_point_A_def create_stereo_camera_matrices_def field_simps)

lemma rig_null_space:
  assumes f: "f \<noteq> 0" and b: "b \<noteq> 0" and Z: "Z \<noteq> 0"
    and null: "mat_vec ((- f, 0, f * X / Z, 0),
          (0, - f, f * Y / Z, 0),
          (- f, 0, f * (X - b) / Z, f * b),
          (0, - f, f * Y / Z, 0)) (x, y, z, w) = (0, 0, 0, 0)"
  shows "x = X * w \<and> y = Y * w \<and> z = Z * w"
proof -
  from null have e1: "- f * x + f * X / Z * z = 0"
    and e2: "- f * y + f * Y / Z * z = 0"
    and e3: "- f * x + f * (X - b) / Z * z + f * b * w = 0"
    by simp_all
  from e1 have "f * (x - X / Z * z) = 0" by (simp add: algebra_simps)
  with f have x: "x = X / Z * z" by simp
  from e2 have "f * (y - Y / Z * z) = 0" by (simp add: algebra_simps)
  with f have y: "y = Y / Z * z" by simp
  from e3 e1 have "f * (X - b) / Z * z + f * b * w = f * X / Z * z" by linarith
  then have "f * b * (w - z / Z) = 0" by (simp add: algebra_simps diff_divide_distrib)
  with f b have "w = z / Z" by simp
  with Z have z: "z = Z * w" by simp
  from x y z Z show ?thesis by simp
qed

section \<open>The round-trip law of the triangulation\<close>

text \<open>
  Claim C1 (round-trip law), as it holds on the code. Take a rig built by
  \<open>create_stereo_camera_matrices\<close> with non-zero focal length and non-zero baseline, a point
  \<open>(X, Y, Z)\<close> whose projections through both matrices are defined, and let the SVD routine
  return a last right-singular vector of the coefficient matrix. Then, in exact arithmetic,
  \<open>triangulate_point\<close> on the two projections returns exactly \<open>(X, Y, Z)\<close>, all three
  coordinates finite.
\<close>

theorem triangulation_round_trip:
  assumes rig: "create_stereo_camera_matrices b f cx cy = (CL, CR)"
    and f: "f \<noteq> 0" and b: "b \<noteq> 0"
    and p1: "project CL (X, Y, Z) = Some p1"
    and p2: "project CR (X, Y, Z) = Some p2"
    and svd: "is_last_right_singular_vector (triangulate_point_A p1 p2 CL CR)
                (svd_last (triangulate_point_A p1 p2 CL CR))"
  shows "triangulate_point svd_last p1 p2 CL CR = (Finite X, Finite Y, Finite Z)"
proof -
  from rig have CL: "CL = fst (create_stereo_camera_matrices b f cx cy)"
    and CR: "CR = snd (create_stereo_camera_matrices b f cx cy)" by simp_all
  from p1 have Z: "Z \<noteq> 0" unfolding CL by (rule rig_projection_defined)
  from p1 have p1v: "p1 = ((f * X + cx * Z) / Z, (f * Y + cy * Z) / Z)"
    unfolding CL by (simp add: rig_projections(1) [OF Z])
  from p2 have p2v: "p2 = ((f * X + cx * Z - f * b) / Z, (f * Y + cy * Z) / Z)"
    unfolding CR by (simp add: rig_projections(2) [OF Z])
  define A where "A = triangulate_point_A p1 p2 CL CR"
  have A: "A = ((- f, 0, f * X / Z, 0), (0, - f, f * Y / Z, 0),
                (- f, 0, f * (X - b) / Z, f * b), (0, - f, f * Y / Z, 0))"
    unfolding A_def p1v p2v CL CR by (rule rig_dlt_matrix [OF Z])
  define n where "n = X * X + Y * Y + Z * Z + 1"
  define s where "s = sqrt n"
  have n: "0 < n" unfolding n_def by (intro add_nonneg_pos add_nonneg_nonneg) simp_all
  then have s: "s * s = n" and s0: "s \<noteq> 0" by (simp_all add: s_def)
  have unit: "norm_sq (X / s, Y / s, Z / s, 1 / s) = 1"
  proof -
    have "norm_sq (X / s, Y / s, Z / s, 1 / s) = n / (s * s)"
      by (simp add: norm_sq_def n_def add_divide_distrib)
    with s n show ?thesis by simp
  qed
  have null: "mat_vec A (X / s, Y / s, Z / s, 1 / s) = (0, 0, 0, 0)"
    unfolding A using Z s0 by (simp add: field_simps)
  obtain x y z w where v: "svd_last A = (x, y, z, w)" by (cases "svd_last A")
  from svd have sv: "is_last_right_singular_vector A (x, y, z, w)"
    by (simp add: A_def [symmetric] v)
  from singular_vector_null [OF sv unit null]
  have "mat_vec A (x, y, z, w) = (0, 0, 0, 0)" .
  then have xyz: "x = X * w \<and> y = Y * w \<and> z = Z * w"
    unfolding A by (rule rig_null_space [OF f b Z])
  have w0: "w \<noteq> 0"
  proof
    assume "w = 0"
    with xyz have "(x, y, z, w) = (0, 0, 0, 0)" by simp
    moreover from sv have "norm_sq (x, y, z, w) = 1"
      by (simp add: is_last_right_singular_vector_def)
    ultimately show False by (simp add: norm_sq_def)
  qed
  show ?thesis
    using xyz w0
    by (simp add: triangulate_point_def A_def [symmetric] v np_true_divide_def)
qed

text \<open>
  The hypotheses of the round-trip law hold together: baseline 1, focal length 1,
  principal point (0, 0) and the point (1, 1, 1), whose projections are (1, 1) and (0, 1);
  the unit vector (1/2, 1/2, 1/2, 1/2) is a last right-singular vector of the system.
\<close>

theorem triangulation_round_trip_witness:
  "create_stereo_camera_matrices 1 1 0 0 =
     (((1, 0, 0, 0), (0, 1, 0, 0), (0, 0, 1, 0)), ((1, 0, 0, - 1), (0, 1, 0, 0), (0, 0, 1, 0)))
   \<and> project ((1, 0, 0, 0), (0, 1, 0, 0), (0, 0, 1, 0)) (1, 1, 1) = Some (1, 1)
   \<and> project ((1, 0, 0, - 1), (0, 1, 0, 0), (0, 0, 1, 0)) (1, 1, 1) = Some (0, 1)
   \<and> is_last_right_singular_vector
       (triangulate_point_A (1, 1) (0, 1)
          ((1, 0, 0, 0), (0, 1, 0, 0), (0, 0, 1, 0)) ((1, 0, 0, - 1), (0, 1, 0, 0), (0, 0, 1, 0)))
       (1 / 2, 1 / 2, 1 / 2, 1 / 2)
   \<and> triangulate_point (\<lambda>A. (1 / 2, 1 / 2, 1 / 2, 1 / 2)) (1, 1) (0, 1)
       ((1, 0, 0, 0), (0, 1, 0, 0), (0, 0, 1, 0)) ((1, 0, 0, - 1), (0, 1, 0, 0), (0, 0, 1, 0)) =
       (Finite 1, Finite 1, Finite 1)"
proof -
  let ?CL = "((1, 0, 0, 0), (0, 1, 0, 0), (0, 0, 1, 0)) :: cam_matrix"
  let ?CR = "((1, 0, 0, - 1), (0, 1, 0, 0), (0, 0, 1, 0)) :: cam_matrix"
  let ?v = "(1 / 2, 1 / 2, 1 / 2, 1 / 2) :: vec4"
  have rig: "create_stereo_camera_matrices 1 1 0 0 = (?CL, ?CR)"
    by (simp add: create_stereo_camera_matrices_def)
  have p1: "project ?CL (1, 1, 1) = Some (1, 1)" by (simp add: project_def)
  have p2: "project ?CR (1, 1, 1) = Some (0, 1)" by (simp add: project_def)
  have sv: "is_last_right_singular_vector (triangulate_point_A (1, 1) (0, 1) ?CL ?CR) ?v"
    by (rule null_vector_is_singular) (simp_all add: norm_sq_def triangulate_point_A_def)
  have "triangulate_point (\<lambda>A. ?v) (1, 1) (0, 1) ?CL ?CR = (Finite 1, Finite 1, Finite 1)"
    by (rule triangulation_round_trip [OF rig _ _ p1 p2]) (simp_all add: sv)
  with rig p1 p2 sv show ?thesis by blast
qed

text \<open>
  The rig builder also accepts baseline 0, and there the round trip cannot hold for every
  point: the two matrices coincide, the points (1, 1, 1) and (2, 2, 2) have the same
  projections (1, 1) in both views, so whatever row the SVD routine returns,
  \<open>triangulate_point\<close> gives one answer for both and cannot recover both.
\<close>

theorem round_trip_fails_for_zero_baseline:
  "\<forall>svd_last.
     fst (create_stereo_camera_matrices 0 1 0 0) = snd (create_stereo_camera_matrices 0 1 0 0)
   \<and> project (fst (create_stereo_camera_matrices 0 1 0 0)) (1, 1, 1) = Some (1, 1)
   \<and> project (fst (create_stereo_camera_matrices 0 1 0 0)) (2, 2, 2) = Some (1, 1)
   \<and> \<not> (triangulate_point svd_last (1, 1) (1, 1)
            (fst (create_stereo_camera_matrices 0 1 0 0))
            (snd (create_stereo_camera_matrices 0 1 0 0)) = (Finite 1, Finite 1, Finite 1)
        \<and> triangulate_point svd_last (1, 1) (1, 1)
            (fst (create_stereo_camera_matrices 0 1 0 0))
            (snd (create_stereo_camera_matrices 0 1 0 0)) = (Finite 2, Finite 2, Finite 2))"
  by (simp add: create_stereo_camera_matrices_def project_def)

text \<open>
  For that rig the row (0, 0, 0, 1) is an admissible answer of the SVD routine, and with it
  the point (1, 1, 1) is triangulated to the origin.
\<close>

lemma zero_baseline_admissible_svd_row:
  "is_last_right_singular_vector
     (triangulate_point_A (1, 1) (1, 1)
        (fst (create_stereo_camera_matrices 0 1 0 0)) (snd (create_stereo_camera_matrices 0 1 0 0)))
     (0, 0, 0, 1)
   \<and> triangulate_point (\<lambda>A. (0, 0, 0, 1)) (1, 1) (1, 1)
        (fst (create_stereo_camera_matrices 0 1 0 0)) (snd (create_stereo_camera_matrices 0 1 0 0)) =
      (Finite 0, Finite 0, Finite 0)"
proof
  show "is_last_right_singular_vector
     (triangulate_point_A (1, 1) (1, 1)
        (fst (create_stereo_camera_matrices 0 1 0 0)) (snd (create_stereo_camera_matrices 0 1 0 0)))
     (0, 0, 0, 1)"
    by (rule null_vector_is_singular)
      (simp_all add: norm_sq_def triangulate_point_A_def create_stereo_camera_matrices_def)
  show "triangulate_point (\<lambda>A. (0, 0, 0, 1)) (1, 1) (1, 1)
        (fst (create_stereo_camera_matrices 0 1 0 0)) (snd (create_stereo_camera_matrices 0 1 0 0)) =
      (Finite 0, Finite 0, Finite 0)"
    by (simp add: triangulate_point_def np_true_divide_def)
qed

section \<open>Degenerate triangulation\<close>

text \<open>
  Claim C2, as it holds on the code. \<open>triangulate_point\<close> has no degeneracy check: when the
  fourth coordinate of the SVD row is zero it still divides, and returns a point each of
  whose coordinates is an infinity or NaN, never a finite number and never an error. The
  per-point computation of \<open>triangulate_points\<close> returns the same point.
\<close>

theorem triangulate_point_unguarded:
  assumes "svd_last (triangulate_point_A p1 p2 M1 M2) = (a, b, c, 0)"
  shows "triangulate_point svd_last p1 p2 M1 M2 =
           (if a = 0 then NaN else Inf, if b = 0 then NaN else Inf, if c = 0 then NaN else Inf)
         \<and> triangulate_points svd_last [p1] [p2] M1 M2 = [triangulate_point svd_last p1 p2 M1 M2]
         \<and> \<not> is_finite (fst (triangulate_point svd_last p1 p2 M1 M2))
         \<and> \<not> is_finite (fst (snd (triangulate_point svd_last p1 p2 M1 M2)))
         \<and> \<not> is_finite (snd (snd (triangulate_point svd_last p1 p2 M1 M2)))"
  using assms
  by (simp add: triangulate_point_def np_true_divide_def triangulate_points_def
      triangulate_points_A_def triangulate_point_A_def)

text \<open>
  An SVD row with fourth coordinate zero: the result is \<open>(NaN, NaN, Inf)\<close>.
\<close>

theorem triangulate_point_unguarded_witness:
  "(\<lambda>A. (0, 0, 1, 0)) (triangulate_point_A (0, 0) (0, 0)
       ((1, 0, 0, 0), (0, 1, 0, 0), (0, 0, 1, 0)) ((1, 0, 0, - 1), (0, 1, 0, 0), (0, 0, 1, 0))) =
     ((0, 0, 1, 0) :: vec4)
   \<and> triangulate_point (\<lambda>A. (0, 0, 1, 0)) (0, 0) (0, 0)
       ((1, 0, 0, 0), (0, 1, 0, 0), (0, 0, 1, 0)) ((1, 0, 0, - 1), (0, 1, 0, 0), (0, 0, 1, 0)) =
     (NaN, NaN, Inf)"
  using triangulate_point_unguarded [of "\<lambda>A. (0, 0, 1, 0)" "(0, 0)" "(0, 0)"
      "((1, 0, 0, 0), (0, 1, 0, 0), (0, 0, 1, 0))"
      "((1, 0, 0, - 1), (0, 1, 0, 0), (0, 0, 1, 0))" 0 0 1]
  by simp

lemma degenerate_null_space:
  assumes "is_last_right_singular_vector
     (triangulate_point_A (0, 0) (0, 0)
        (fst (create_stereo_camera_matrices 1 1 0 0)) (snd (create_stereo_camera_matrices 1 1 0 0)))
     (x, y, z, w)"
  shows "x = 0 \<and> y = 0 \<and> w = 0 \<and> z \<noteq> 0"
proof -
  let ?A = "triangulate_point_A (0, 0) (0, 0)
        (fst (create_stereo_camera_matrices 1 1 0 0)) (snd (create_stereo_camera_matrices 1 1 0 0))"
  have "norm_sq (0, 0, 1, 0) = 1" by (simp add: norm_sq_def)
  moreover have "mat_vec ?A (0, 0, 1, 0) = (0, 0, 0, 0)"
    by (simp add: triangulate_point_A_def create_stereo_camera_matrices_def)
  ultimately have "mat_vec ?A (x, y, z, w) = (0, 0, 0, 0)"
    by (rule singular_vector_null [OF assms])
  then have xyw: "x = 0 \<and> y = 0 \<and> w = 0"
    by (simp add: triangulate_point_A_def create_stereo_camera_matrices_def)
  moreover from assms have "norm_sq (x, y, z, w) = 1"
    by (simp add: is_last_right_singular_vector_def)
  ultimately show ?thesis by (auto simp add: norm_sq_def)
qed

text \<open>
  The claim as stated fails: for the rig with baseline 1, focal length 1 and principal
  point (0, 0), and the identical projections \<open>p1 = p2 = (0, 0)\<close>, the row (0, 0, 1, 0) is a
  last right-singular vector of the system, every last right-singular vector has fourth
  coordinate zero, and \<open>triangulate_point\<close> returns \<open>(NaN, NaN, Inf)\<close> whatever admissible
  row the SVD routine picks. No degenerate-triangulation condition is raised.
\<close>

theorem degenerate_input_returns_nan_inf:
  "is_last_right_singular_vector
     (triangulate_point_A (0, 0) (0, 0)
        (fst (create_stereo_camera_matrices 1 1 0 0)) (snd (create_stereo_camera_matrices 1 1 0 0)))
     (0, 0, 1, 0)
   \<and> triangulate_point (\<lambda>A. (0, 0, 1, 0)) (0, 0) (0, 0)
        (fst (create_stereo_camera_matrices 1 1 0 0)) (snd (create_stereo_camera_matrices 1 1 0 0)) =
      (NaN, NaN, Inf)
   \<and> \<not> (\<exists>svd_last.
          is_last_right_singular_vector
            (triangulate_point_A (0, 0) (0, 0)
              (fst (create_stereo_camera_matrices 1 1 0 0))
              (snd (create_stereo_camera_matrices 1 1 0 0)))
            (svd_last (triangulate_point_A (0, 0) (0, 0)
              (fst (create_stereo_camera_matrices 1 1 0 0))
              (snd (create_stereo_camera_matrices 1 1 0 0))))
          \<and> triangulate_point svd_last (0, 0) (0, 0)
              (fst (create_stereo_camera_matrices 1 1 0 0))
              (snd (create_stereo_camera_matrices 1 1 0 0)) \<noteq> (NaN, NaN, Inf))"
proof (intro conjI notI)
  let ?A = "triangulate_point_A (0, 0) (0, 0)
        (fst (create_stereo_camera_matrices 1 1 0 0)) (snd (create_stereo_camera_matrices 1 1 0 0))"
  show "is_last_right_singular_vector ?A (0, 0, 1, 0)"
    by (rule null_vector_is_singular)
      (simp_all add: norm_sq_def triangulate_point_A_def create_stereo_camera_matrices_def)
  show "triangulate_point (\<lambda>A. (0, 0, 1, 0)) (0, 0) (0, 0)
        (fst (create_stereo_camera_matrices 1 1 0 0)) (snd (create_stereo_camera_matrices 1 1 0 0)) =
      (NaN, NaN, Inf)"
    by (simp add: triangulate_point_def np_true_divide_def)
  assume "\<exists>svd_last. is_last_right_singular_vector ?A (svd_last ?A)
          \<and> triangulate_point svd_last (0, 0) (0, 0)
              (fst (create_stereo_camera_matrices 1 1 0 0))
              (snd (create_stereo_camera_matrices 1 1 0 0)) \<noteq> (NaN, NaN, Inf)"
  then obtain svd_last where sv: "is_last_right_singular_vector ?A (svd_last ?A)"
    and ne: "triangulate_point svd_last (0, 0) (0, 0)
              (fst (create_stereo_camera_matrices 1 1 0 0))
              (snd (create_stereo_camera_matrices 1 1 0 0)) \<noteq> (NaN, NaN, Inf)" by blast
  obtain x y z w where v: "svd_last ?A = (x, y, z, w)" by (cases "svd_last ?A")
  from sv have "x = 0 \<and> y = 0 \<and> w = 0 \<and> z \<noteq> 0"
    unfolding v by (rule degenerate_null_space)
  with ne v show False by (simp add: triangulate_point_def np_true_divide_def)
qed

section \<open>Sessions: correspondence filtering and batch shape\<close>

lemma update_fresh_key:
  "k \<notin> fst ` set al \<Longrightarrow> AList.update k v al = al @ [(k, v)]"
  by (induction al) auto

lemma joints_loop_total:
  assumes "set ks \<subseteq> fst ` set frame1"
  shows "\<exists>r. joints_loop svd_last ks frame1 frame2 c1 c2 acc = Inr r"
  using assms
proof (induction ks arbitrary: acc)
  case Nil
  show ?case by simp
next
  case (Cons k ks)
  from Cons.prems have ks: "set ks \<subseteq> fst ` set frame1" and k: "k \<in> fst ` set frame1"
    by simp_all
  show ?case
  proof (cases "map_of frame2 k")
    case None
    then show ?thesis using Cons.IH [OF ks] by simp
  next
    case (Some j2)
    from k obtain j1 where j1: "map_of frame1 k = Some j1"
      by (metis map_of_eq_None_iff not_Some_eq)
    show ?thesis using Some j1 Cons.IH [OF ks] by (simp add: dict_getitem_def)
  qed
qed

lemma joints_loop_no_common:
  assumes "set ks \<inter> fst ` set frame2 = {}"
  shows "joints_loop svd_last ks frame1 frame2 c1 c2 acc = Inr acc"
  using assms
proof (induction ks)
  case Nil
  show ?case by simp
next
  case (Cons k ks)
  then have "map_of frame2 k = None" by (simp add: map_of_eq_None_iff)
  with Cons show ?case by simp
qed

lemma joints_loop_closed:
  assumes d: "distinct (map fst frame1)"
    and sub: "set items \<subseteq> set frame1"
    and di: "distinct (map fst items)"
    and disj: "fst ` set items \<inter> fst ` set acc = {}"
  shows "joints_loop svd_last (map fst items) frame1 frame2 c1 c2 acc =
     Inr (acc @ map (\<lambda>(k, j1). (k, triangulate_point svd_last (joint_x j1, joint_y j1)
              (joint_x (the (map_of frame2 k)), joint_y (the (map_of frame2 k))) c1 c2))
            (filter (\<lambda>(k, j1). map_of frame2 k \<noteq> None) items))"
  using sub di disj
proof (induction items arbitrary: acc)
  case Nil
  show ?case by simp
next
  case (Cons item items)
  obtain k j1 where item: "item = (k, j1)" by (cases item)
  from Cons.prems item have sub': "set items \<subseteq> set frame1" and mem: "(k, j1) \<in> set frame1"
    and di': "distinct (map fst items)" and knew: "k \<notin> fst ` set items"
    and kacc: "k \<notin> fst ` set acc" and disj': "fst ` set items \<inter> fst ` set acc = {}"
    by auto
  show ?case
  proof (cases "map_of frame2 k")
    case None
    then show ?thesis using Cons.IH [OF sub' di' disj'] by (simp add: item)
  next
    case (Some j2)
    from d mem have j1: "map_of frame1 k = Some j1" by simp
    let ?pt = "triangulate_point svd_last (joint_x j1, joint_y j1) (joint_x j2, joint_y j2) c1 c2"
    have upd: "AList.update k ?pt acc = acc @ [(k, ?pt)]"
      using kacc by (rule update_fresh_key)
    have disj2: "fst ` set items \<inter> fst ` set (acc @ [(k, ?pt)]) = {}"
      using disj' knew by auto
    show ?thesis
      using Some j1 Cons.IH [OF sub' di' disj2]
      by (simp add: item dict_getitem_def upd)
  qed
qed

lemma frames_loop_closed:
  "frames_loop svd_last ps c1 c2 acc =
     Inr (acc @ map (\<lambda>(f1, f2). projr (joints_loop svd_last (map fst f1) f1 f2 c1 c2 [])) ps)"
proof (induction ps arbitrary: acc)
  case Nil
  show ?case by simp
next
  case (Cons p ps)
  obtain f1 f2 where p: "p = (f1, f2)" by (cases p)
  have "set (map fst f1) \<subseteq> fst ` set f1" by simp
  from joints_loop_total [OF this]
  obtain r where r: "joints_loop svd_last (map fst f1) f1 f2 c1 c2 [] = Inr r" by blast
  show ?case by (simp add: p r Cons.IH)
qed

lemma triangulate_all_frames_closed:
  "triangulate_all_frames svd_last v1 v2 c1 c2 =
     Inr (map (\<lambda>(f1, f2). projr (joints_loop svd_last (map fst f1) f1 f2 c1 c2 [])) (zip v1 v2))"
  by (simp add: triangulate_all_frames_def frames_loop_closed)

text \<open>
  Claim C4. For one frame of view A (a dictionary, so with distinct keys) and one frame of
  view B, \<open>triangulate_all_frames\<close> raises nothing and returns one joint map whose keys are
  exactly the keys of A's frame that are also keys of B's frame, in the order of A's frame;
  each such joint carries the triangulation of its two pixel positions. Joints of A missing
  from B are dropped silently.
\<close>

theorem correspondence_filtering:
  assumes "distinct (map fst frameA)"
  shows "\<exists>joints. triangulate_all_frames svd_last [frameA] [frameB] c1 c2 = Inr [joints]
     \<and> map fst joints = filter (\<lambda>k. k \<in> fst ` set frameB) (map fst frameA)
     \<and> joints = map (\<lambda>(k, a). (k, triangulate_point svd_last (joint_x a, joint_y a)
              (joint_x (the (map_of frameB k)), joint_y (the (map_of frameB k))) c1 c2))
            (filter (\<lambda>(k, a). k \<in> fst ` set frameB) frameA)"
proof -
  let ?g = "\<lambda>(k, a). (k, triangulate_point svd_last (joint_x a, joint_y a)
              (joint_x (the (map_of frameB k)), joint_y (the (map_of frameB k))) c1 c2)"
  have p: "filter (\<lambda>(k, a). map_of frameB k \<noteq> None) frameA =
      filter (\<lambda>(k, a). k \<in> fst ` set frameB) frameA"
    by (rule filter_cong) (auto simp add: map_of_eq_None_iff)
  have loop: "joints_loop svd_last (map fst frameA) frameA frameB c1 c2 [] =
      Inr (map ?g (filter (\<lambda>(k, a). k \<in> fst ` set frameB) frameA))"
  proof -
    have "joints_loop svd_last (map fst frameA) frameA frameB c1 c2 [] =
      Inr ([] @ map ?g (filter (\<lambda>(k, a). map_of frameB k \<noteq> None) frameA))"
      by (rule joints_loop_closed [OF assms subset_refl assms]) simp
    then show ?thesis by (simp only: p append_Nil)
  qed
  have keys: "map fst (map ?g (filter (\<lambda>(k, a). k \<in> fst ` set frameB) frameA)) =
      filter (\<lambda>k. k \<in> fst ` set frameB) (map fst frameA)"
    by (simp add: filter_map comp_def case_prod_unfold)
  show ?thesis
    using keys by (simp add: triangulate_all_frames_def loop)
qed

text \<open>
  Claim C5. For every pair of sessions \<open>triangulate_all_frames\<close> returns (without raising) a
  list of exactly \<open>min (len A) (len B)\<close> joint maps; the map at position \<open>i\<close> is the one
  computed from frame \<open>i\<close> of A and frame \<open>i\<close> of B; and a frame pair with no common joint
  contributes the empty map at its position.
\<close>

theorem batch_shape_and_order:
  "\<exists>poses. triangulate_all_frames svd_last view1 view2 c1 c2 = Inr poses
     \<and> length poses = min (length view1) (length view2)
     \<and> (\<forall>i < length poses.
          triangulate_all_frames svd_last [view1 ! i] [view2 ! i] c1 c2 = Inr [poses ! i])
     \<and> (\<forall>i < length poses.
          fst ` set (view1 ! i) \<inter> fst ` set (view2 ! i) = {} \<longrightarrow> poses ! i = [])"
proof -
  let ?f = "\<lambda>(f1, f2). projr (joints_loop svd_last (map fst f1) f1 f2 c1 c2 [])"
  let ?poses = "map ?f (zip view1 view2)"
  have a: "triangulate_all_frames svd_last view1 view2 c1 c2 = Inr ?poses"
    by (rule triangulate_all_frames_closed)
  have b: "length ?poses = min (length view1) (length view2)" by simp
  have c: "triangulate_all_frames svd_last [view1 ! i] [view2 ! i] c1 c2 = Inr [?poses ! i]"
    if "i < length ?poses" for i
    using that by (simp add: triangulate_all_frames_closed)
  have d: "?poses ! i = []"
    if "i < length ?poses" and "fst ` set (view1 ! i) \<inter> fst ` set (view2 ! i) = {}" for i
  proof -
    from that(2) have "set (map fst (view1 ! i)) \<inter> fst ` set (view2 ! i) = {}" by simp
    then have "joints_loop svd_last (map fst (view1 ! i)) (view1 ! i) (view2 ! i) c1 c2 [] = Inr []"
      by (rule joints_loop_no_common)
    with that(1) show ?thesis by simp
  qed
  from a b c d show ?thesis by blast
qed

text \<open>
  View A with joints 0, 1, 2 and view B with joints 0, 2 yield joints 0, 2, in that order.
\<close>

theorem correspondence_filtering_witness:
  "distinct (map fst
      [(''joint_0'', \<lparr>joint_x = 100, joint_y = 200, joint_z = 0, joint_vis = 1\<rparr>),
       (''joint_1'', \<lparr>joint_x = 110, joint_y = 210, joint_z = 0, joint_vis = 1\<rparr>),
       (''joint_2'', \<lparr>joint_x = 120, joint_y = 220, joint_z = 0, joint_vis = 1\<rparr>)])
   \<and> (\<exists>joints. triangulate_all_frames (\<lambda>A. (0, 0, 0, 1))
        [[(''joint_0'', \<lparr>joint_x = 100, joint_y = 200, joint_z = 0, joint_vis = 1\<rparr>),
          (''joint_1'', \<lparr>joint_x = 110, joint_y = 210, joint_z = 0, joint_vis = 1\<rparr>),
          (''joint_2'', \<lparr>joint_x = 120, joint_y = 220, joint_z = 0, joint_vis = 1\<rparr>)]]
        [[(''joint_0'', \<lparr>joint_x = 80, joint_y = 200, joint_z = 0, joint_vis = 1\<rparr>),
          (''joint_2'', \<lparr>joint_x = 90, joint_y = 220, joint_z = 0, joint_vis = 1\<rparr>)]]
        (fst (create_stereo_camera_matrices 10 640 320 240))
        (snd (create_stereo_camera_matrices 10 640 320 240)) = Inr [joints]
      \<and> map fst joints = [''joint_0'', ''joint_2''])"
proof -
  let ?A = "[(''joint_0'', \<lparr>joint_x = 100, joint_y = 200, joint_z = 0, joint_vis = 1\<rparr>),
       (''joint_1'', \<lparr>joint_x = 110, joint_y = 210, joint_z = 0, joint_vis = 1\<rparr>),
       (''joint_2'', \<lparr>joint_x = 120, joint_y = 220, joint_z = 0, joint_vis = 1\<rparr>)]"
  let ?B = "[(''joint_0'', \<lparr>joint_x = 80, joint_y = 200, joint_z = 0, joint_vis = 1\<rparr>),
          (''joint_2'', \<lparr>joint_x = 90, joint_y = 220, joint_z = 0, joint_vis = 1\<rparr>)]"
  have d: "distinct (map fst ?A)" by simp
  have f: "filter (\<lambda>k. k \<in> fst ` set ?B) (map fst ?A) = [''joint_0'', ''joint_2'']" by simp
  note th = correspondence_filtering [OF d, of "\<lambda>A. (0, 0, 0, 1)" ?B
      "fst (create_stereo_camera_matrices 10 640 320 240)"
      "snd (create_stereo_camera_matrices 10 640 320 240)", unfolded f]
  from th have "\<exists>joints. triangulate_all_frames (\<lambda>A. (0, 0, 0, 1)) [?A] [?B]
        (fst (create_stereo_camera_matrices 10 640 320 240))
        (snd (create_stereo_camera_matrices 10 640 320 240)) = Inr [joints]
      \<and> map fst joints = [''joint_0'', ''joint_2'']"
    by (elim exE conjE, intro exI conjI)
  with d show ?thesis by (intro conjI)
qed

text \<open>
  Sessions of three and of two frames give two joint maps; the second frame pair has no
  common joint and contributes the empty map.
\<close>

theorem batch_shape_and_order_witness:
  "\<exists>poses. triangulate_all_frames (\<lambda>A. (0, 0, 0, 1))
        [[(''joint_0'', \<lparr>joint_x = 100, joint_y = 200, joint_z = 0, joint_vis = 1\<rparr>)],
         [(''joint_1'', \<lparr>joint_x = 110, joint_y = 210, joint_z = 0, joint_vis = 1\<rparr>)],
         [(''joint_2'', \<lparr>joint_x = 120, joint_y = 220, joint_z = 0, joint_vis = 1\<rparr>)]]
        [[(''joint_0'', \<lparr>joint_x = 80, joint_y = 200, joint_z = 0, joint_vis = 1\<rparr>)],
         [(''joint_5'', \<lparr>joint_x = 90, joint_y = 220, joint_z = 0, joint_vis = 1\<rparr>)]]
        (fst (create_stereo_camera_matrices 10 640 320 240))
        (snd (create_stereo_camera_matrices 10 640 320 240)) = Inr poses
      \<and> length poses = 2 \<and> (1 :: nat) < length poses
      \<and> fst ` set [(''joint_1'', \<lparr>joint_x = 110, joint_y = 210, joint_z = 0, joint_vis = 1\<rparr>)]
          \<inter> fst ` set [(''joint_5'', \<lparr>joint_x = 90, joint_y = 220, joint_z = 0, joint_vis = 1\<rparr>)] = {}
      \<and> poses ! 1 = []"
proof -
  let ?v1 = "[[(''joint_0'', \<lparr>joint_x = 100, joint_y = 200, joint_z = 0, joint_vis = 1\<rparr>)],
         [(''joint_1'', \<lparr>joint_x = 110, joint_y = 210, joint_z = 0, joint_vis = 1\<rparr>)],
         [(''joint_2'', \<lparr>joint_x = 120, joint_y = 220, joint_z = 0, joint_vis = 1\<rparr>)]]"
  let ?v2 = "[[(''joint_0'', \<lparr>joint_x = 80, joint_y = 200, joint_z = 0, joint_vis = 1\<rparr>)],
         [(''joint_5'', \<lparr>joint_x = 90, joint_y = 220, joint_z = 0, joint_vis = 1\<rparr>)]]"
  from batch_shape_and_order [of "\<lambda>A. (0, 0, 0, 1)" ?v1 ?v2
      "fst (create_stereo_camera_matrices 10 640 320 240)"
      "snd (create_stereo_camera_matrices 10 640 320 240)"]
  obtain poses where p: "triangulate_all_frames (\<lambda>A. (0, 0, 0, 1)) ?v1 ?v2
        (fst (create_stereo_camera_matrices 10 640 320 240))
        (snd (create_stereo_camera_matrices 10 640 320 240)) = Inr poses"
    and l: "length poses = min (length ?v1) (length ?v2)"
    and e: "\<forall>i < length poses.
          fst ` set (?v1 ! i) \<inter> fst ` set (?v2 ! i) = {} \<longrightarrow> poses ! i = []"
    by blast
  from l have l2: "length poses = 2" by simp
  have disj: "fst ` set (?v1 ! 1) \<inter> fst ` set (?v2 ! 1) = {}" by simp
  from e l2 disj have "poses ! 1 = []" by simp
  with p l2 disj show ?thesis by simp
qed

section \<open>Depth from disparity\<close>

text \<open>
  Claim C6, as it holds on the code. On a floating-point disparity map
  \<open>depth_from_disparity\<close> replaces the entries that are exactly 0 by 0.1 and divides
  \<open>baseline * focal_length\<close> by every entry, all other entries unchanged (nothing is clamped
  against a threshold); so every output is finite, and on an all-zero map every output is
  the finite value \<open>10 * baseline * focal_length\<close>.
\<close>

theorem depth_from_disparity_float:
  "depth_from_disparity (FloatArray rows) baseline focal_length =
     map (map (\<lambda>d. Finite (baseline * focal_length / (if d = 0 then 1 / 10 else d)))) rows
   \<and> ((\<forall>row \<in> set rows. \<forall>d \<in> set row. d = 0) \<longrightarrow>
        depth_from_disparity (FloatArray rows) baseline focal_length =
          map (map (\<lambda>d. Finite (10 * baseline * focal_length))) rows)"
proof
  show a: "depth_from_disparity (FloatArray rows) baseline focal_length =
     map (map (\<lambda>d. Finite (baseline * focal_length / (if d = 0 then 1 / 10 else d)))) rows"
    by (simp add: depth_from_disparity_def np_true_divide_def comp_def)
  show "(\<forall>row \<in> set rows. \<forall>d \<in> set row. d = 0) \<longrightarrow>
        depth_from_disparity (FloatArray rows) baseline focal_length =
          map (map (\<lambda>d. Finite (10 * baseline * focal_length))) rows"
    unfolding a by (auto intro!: map_cong)
qed

text \<open>An all-zero 2x2 map with baseline 5 and focal length 640: depth 32000 everywhere.\<close>

theorem depth_from_disparity_float_witness:
  "list_all (list_all (\<lambda>d. d = 0)) [[0, 0], [0, 0 :: real]]
   \<and> depth_from_disparity (FloatArray [[0, 0], [0, 0]]) 5 640 =
       [[Finite 32000, Finite 32000], [Finite 32000, Finite 32000]]"
  using depth_from_disparity_float [of "[[0, 0], [0, 0]]" 5 640] by simp

text \<open>
  The formula \<open>baseline * focalLength / max(disparity, epsilon)\<close> is not what the code
  computes, for any \<open>epsilon\<close>: on the map \<open>[[0, 0.05]]\<close> with baseline 1 and focal length 1
  the code returns \<open>[[10, 20]]\<close>; the first entry forces \<open>epsilon = 0.1\<close>, and then the formula
  gives 10, not 20, for the second.
\<close>

theorem near_zero_disparity_not_clamped:
  "depth_from_disparity (FloatArray [[0, 1 / 20]]) 1 1 = [[Finite 10, Finite 20]]
   \<and> \<not> (\<exists>epsilon. depth_formula_spec epsilon [[0, 1 / 20]] 1 1 =
                    depth_from_disparity (FloatArray [[0, 1 / 20]]) 1 1)"
proof
  show a: "depth_from_disparity (FloatArray [[0, 1 / 20]]) 1 1 = [[Finite 10, Finite 20]]"
    by (simp add: depth_from_disparity_def np_true_divide_def)
  show "\<not> (\<exists>epsilon. depth_formula_spec epsilon [[0, 1 / 20]] 1 1 =
                    depth_from_disparity (FloatArray [[0, 1 / 20]]) 1 1)"
  proof
    assume "\<exists>epsilon. depth_formula_spec epsilon [[0, 1 / 20]] 1 1 =
                    depth_from_disparity (FloatArray [[0, 1 / 20]]) 1 1"
    then obtain e where e: "depth_formula_spec e [[0, 1 / 20]] 1 1 = [[Finite 10, Finite 20]]"
      unfolding a by blast
    then have e0: "np_true_divide 1 (max 0 e) = Finite 10"
      and e1: "np_true_divide 1 (max (1 / 20) e) = Finite 20"
      by (simp_all add: depth_formula_spec_def)
    from e0 have "max 0 e = 1 / 10"
      by (auto simp add: np_true_divide_def field_simps split: if_splits)
    then have "e = 1 / 10" by (simp add: max_def split: if_splits)
    with e1 show False by (simp add: np_true_divide_def)
  qed
qed

text \<open>
  On an integer map the assigned 0.1 is stored as 0, and the division by zero remains.
\<close>

lemma depth_from_disparity_int_zero:
  "depth_from_disparity (IntArray [[0]]) 5 640 = [[Inf]]"
  by (simp add: depth_from_disparity_def np_true_divide_def truncate_to_int_def)

section \<open>Calibration gating\<close>

text \<open>
  Claim C7. With fewer than five accepted images \<open>calibrate\<close> prints its message and
  returns \<open>False\<close>, leaving the calibrator as it was, whatever the solver is (it is not
  called); with five or more it calls the solver on the accumulated points and the reversed
  image shape and returns what the solver returns. The number of accepted images is the
  length of \<open>objpoints\<close>: it starts at 0 and grows by one exactly when
  \<open>add_calibration_image\<close> accepts.
\<close>

theorem calibrate_gating:
  "(length (objpoints self) < 5 \<longrightarrow>
      calibrate calibrateCamera image_shape self =
        Inr (PyBool False, [''Need at least 5 calibration images''], self))
   \<and> (5 \<le> length (objpoints self) \<longrightarrow>
      calibrate calibrateCamera image_shape self =
        (case calibrateCamera (objpoints self) (imgpoints self) (rev image_shape) of
           Inl e \<Rightarrow> Inl e
         | Inr (ret, cm, dc, rv, tv) \<Rightarrow>
             Inr (PyFloat ret, [],
                  self\<lparr> camera_matrix := Some cm, dist_coeffs := Some dc,
                        rvecs := Some rv, tvecs := Some tv \<rparr>)))
   \<and> length (objpoints (snd (add_calibration_image find_corners img self))) =
       length (objpoints self) + (if fst (fst (add_calibration_image find_corners img self)) then 1 else 0)
   \<and> objpoints (calibrator_init board sq) = []"
  by (simp add: calibrate_def add_calibration_image_def calibrator_init_def split: option.split)

text \<open>After four accepted images the call fails; after five it proceeds to the solver.\<close>

theorem calibrate_gating_witness:
  "length (objpoints ((calibrator_init (9, 6) (5 / 2))
       \<lparr> objpoints := replicate 4 (objp (calibrator_init (9, 6) (5 / 2))),
         imgpoints := replicate 4 (NdArray (JArr [])) \<rparr>)) < 5
   \<and> calibrate (\<lambda>ops ips sz. Inr (1 / 2, NdArray (JArr []), NdArray (JArr []), [], [])) [480, 640]
       ((calibrator_init (9, 6) (5 / 2))
         \<lparr> objpoints := replicate 4 (objp (calibrator_init (9, 6) (5 / 2))),
           imgpoints := replicate 4 (NdArray (JArr [])) \<rparr>) =
       Inr (PyBool False, [''Need at least 5 calibration images''],
         (calibrator_init (9, 6) (5 / 2))
         \<lparr> objpoints := replicate 4 (objp (calibrator_init (9, 6) (5 / 2))),
           imgpoints := replicate 4 (NdArray (JArr [])) \<rparr>)
   \<and> 5 \<le> length (objpoints ((calibrator_init (9, 6) (5 / 2))
       \<lparr> objpoints := replicate 5 (objp (calibrator_init (9, 6) (5 / 2))),
         imgpoints := replicate 5 (NdArray (JArr [])) \<rparr>))
   \<and> calibrate (\<lambda>ops ips sz. Inr (1 / 2, NdArray (JArr []), NdArray (JArr []), [], [])) [480, 640]
       ((calibrator_init (9, 6) (5 / 2))
         \<lparr> objpoints := replicate 5 (objp (calibrator_init (9, 6) (5 / 2))),
           imgpoints := replicate 5 (NdArray (JArr [])) \<rparr>) =
       Inr (PyFloat (1 / 2), [],
         (calibrator_init (9, 6) (5 / 2))
         \<lparr> objpoints := replicate 5 (objp (calibrator_init (9, 6) (5 / 2))),
           imgpoints := replicate 5 (NdArray (JArr [])),
           camera_matrix := Some (NdArray (JArr [])), dist_coeffs := Some (NdArray (JArr [])),
           rvecs := Some [], tvecs := Some [] \<rparr>)"
proof -
  let ?solver = "\<lambda>(ops :: ndarray list) (ips :: ndarray list) (sz :: nat list).
      (Inr (1 / 2, NdArray (JArr []), NdArray (JArr []), [], []) :: py_error + solver_result)"
  let ?s4 = "(calibrator_init (9, 6) (5 / 2))
       \<lparr> objpoints := replicate 4 (objp (calibrator_init (9, 6) (5 / 2))),
         imgpoints := replicate 4 (NdArray (JArr [])) \<rparr>"
  let ?s5 = "(calibrator_init (9, 6) (5 / 2))
       \<lparr> objpoints := replicate 5 (objp (calibrator_init (9, 6) (5 / 2))),
         imgpoints := replicate 5 (NdArray (JArr [])) \<rparr>"
  have l4: "length (objpoints ?s4) < 5" by simp
  have l5: "5 \<le> length (objpoints ?s5)" by simp
  from calibrate_gating [where self = ?s4 and calibrateCamera = ?solver
      and image_shape = "[480, 640]" and find_corners = "\<lambda>i :: unit. None" and img = "()"
      and board = "(9, 6)" and sq = "5 / 2"] l4
  have c4: "calibrate ?solver [480, 640] ?s4 =
      Inr (PyBool False, [''Need at least 5 calibration images''], ?s4)" by blast
  from calibrate_gating [where self = ?s5 and calibrateCamera = ?solver
      and image_shape = "[480, 640]" and find_corners = "\<lambda>i :: unit. None" and img = "()"
      and board = "(9, 6)" and sq = "5 / 2"] l5
  have c5: "calibrate ?solver [480, 640] ?s5 =
      Inr (PyFloat (1 / 2), [],
         ?s5\<lparr> camera_matrix := Some (NdArray (JArr [])), dist_coeffs := Some (NdArray (JArr [])),
           rvecs := Some [], tvecs := Some [] \<rparr>)" by simp
  from l4 c4 l5 c5 show ?thesis by (intro conjI)
qed

section \<open>Loading and saving a calibration\<close>

text \<open>
  Claim C8, as it holds on the code. \<open>load_calibration\<close> returns \<open>False\<close> and leaves the
  calibrator unchanged when the file cannot be read or parsed, when the parsed value has no
  \<open>camera_matrix\<close> entry (not an object, or the key is missing) and when the array
  conversion of that entry raises. It also returns \<open>False\<close> when \<open>dist_coeffs\<close> is missing.
  On every failure the calibrator differs from the prior one at most in \<open>camera_matrix\<close>.
\<close>

theorem load_calibration_failure:
  "load_calibration np_array None self = (False, self)
   \<and> (json_getitem data ''camera_matrix'' = None \<longrightarrow>
        load_calibration np_array (Some data) self = (False, self))
   \<and> (\<forall>cmj. json_getitem data ''camera_matrix'' = Some cmj \<and> np_array cmj = None \<longrightarrow>
        load_calibration np_array (Some data) self = (False, self))
   \<and> (json_getitem data ''dist_coeffs'' = None \<longrightarrow>
        fst (load_calibration np_array (Some data) self) = False)
   \<and> (fst (load_calibration np_array file self) = False \<longrightarrow>
        (snd (load_calibration np_array file self))\<lparr> camera_matrix := camera_matrix self \<rparr> = self)"
  by (auto simp add: load_calibration_def Let_def split: option.splits)

text \<open>
  A file without \<open>camera_matrix\<close> fails and changes nothing; a file that is a list fails.
\<close>

theorem load_calibration_failure_witness:
  "json_getitem (JObj [(''dist_coeffs'', JArr [JNum 0])]) ''camera_matrix'' = None
   \<and> load_calibration (\<lambda>j. Some (NdArray j)) (Some (JObj [(''dist_coeffs'', JArr [JNum 0])]))
        (calibrator_init (9, 6) (5 / 2)) = (False, calibrator_init (9, 6) (5 / 2))
   \<and> json_getitem (JArr []) ''dist_coeffs'' = None
   \<and> fst (load_calibration (\<lambda>j. Some (NdArray j)) (Some (JArr []))
        (calibrator_init (9, 6) (5 / 2))) = False"
  using load_calibration_failure [of "\<lambda>j. Some (NdArray j)" "calibrator_init (9, 6) (5 / 2)"
      "JObj [(''dist_coeffs'', JArr [JNum 0])]" None]
    load_calibration_failure [of "\<lambda>j. Some (NdArray j)" "calibrator_init (9, 6) (5 / 2)"
      "JArr []" None]
  by simp

text \<open>
  The claim as stated fails. A file that holds \<open>camera_matrix\<close> but no \<open>dist_coeffs\<close> makes
  \<open>load_calibration\<close> return \<open>False\<close> after it has overwritten the camera matrix; and a file
  whose two entries are strings is accepted (\<open>np.array\<close> builds an array from a string).
\<close>

theorem load_calibration_not_atomic:
  "camera_matrix (calibrator_init (9, 6) (5 / 2)) = None
   \<and> json_getitem (JObj [(''camera_matrix'',
         JArr [JArr [JNum 1, JNum 0, JNum 0], JArr [JNum 0, JNum 1, JNum 0],
               JArr [JNum 0, JNum 0, JNum 1]])]) ''dist_coeffs'' = None
   \<and> load_calibration (\<lambda>j. Some (NdArray j))
       (Some (JObj [(''camera_matrix'',
         JArr [JArr [JNum 1, JNum 0, JNum 0], JArr [JNum 0, JNum 1, JNum 0],
               JArr [JNum 0, JNum 0, JNum 1]])]))
       (calibrator_init (9, 6) (5 / 2)) =
     (False, (calibrator_init (9, 6) (5 / 2))
        \<lparr> camera_matrix := Some (NdArray
           (JArr [JArr [JNum 1, JNum 0, JNum 0], JArr [JNum 0, JNum 1, JNum 0],
                  JArr [JNum 0, JNum 0, JNum 1]])) \<rparr>)
   \<and> camera_matrix (snd (load_calibration (\<lambda>j. Some (NdArray j))
       (Some (JObj [(''camera_matrix'',
         JArr [JArr [JNum 1, JNum 0, JNum 0], JArr [JNum 0, JNum 1, JNum 0],
               JArr [JNum 0, JNum 0, JNum 1]])]))
       (calibrator_init (9, 6) (5 / 2)))) \<noteq> camera_matrix (calibrator_init (9, 6) (5 / 2))
   \<and> fst (load_calibration (\<lambda>j. Some (NdArray j))
       (Some (JObj [(''camera_matrix'', JStr ''abc''), (''dist_coeffs'', JStr ''x'')]))
       (calibrator_init (9, 6) (5 / 2))) = True"
  by (simp add: load_calibration_def calibrator_init_def)

lemma json_shape_replicate:
  "0 < n \<Longrightarrow> json_shape (JArr (replicate n x)) = n # json_shape x"
  by (cases n) simp_all

lemma replicate_head: "0 < n \<Longrightarrow> replicate n x = x # replicate (n - 1) x"
  by (cases n) simp_all

text \<open>
  Claim C9, evaluated on the code. Five accepted images of a 9x6 board give corner arrays
  of shape (54, 1, 2); after \<open>calibrate\<close> with image shape (480, 640), \<open>save_calibration\<close>
  writes the three keys, but \<open>image_shape\<close> holds \<open>[54, 1]\<close>, the first two dimensions of the
  first corner array, and not the height and width \<open>[480, 640]\<close> of the images.
\<close>

theorem save_calibration_image_shape:
  "shape (NdArray (JArr (replicate 54 (JArr [JArr [JNum 0, JNum 0]])))) = [54, 1, 2]
   \<and> calibrate (\<lambda>ops ips sz. Inr (1 / 2, NdArray (JArr [JArr [JNum 640, JNum 0, JNum 320],
                    JArr [JNum 0, JNum 640, JNum 240], JArr [JNum 0, JNum 0, JNum 1]]),
                  NdArray (JArr [JArr [JNum 0, JNum 0, JNum 0, JNum 0, JNum 0]]), [], []))
       [480, 640]
       ((calibrator_init (9, 6) (5 / 2))
         \<lparr> objpoints := replicate 5 (objp (calibrator_init (9, 6) (5 / 2))),
           imgpoints := replicate 5 (NdArray (JArr (replicate 54 (JArr [JArr [JNum 0, JNum 0]])))) \<rparr>) =
     Inr (PyFloat (1 / 2), [],
       (calibrator_init (9, 6) (5 / 2))
         \<lparr> objpoints := replicate 5 (objp (calibrator_init (9, 6) (5 / 2))),
           imgpoints := replicate 5 (NdArray (JArr (replicate 54 (JArr [JArr [JNum 0, JNum 0]])))),
           camera_matrix := Some (NdArray (JArr [JArr [JNum 640, JNum 0, JNum 320],
                    JArr [JNum 0, JNum 640, JNum 240], JArr [JNum 0, JNum 0, JNum 1]])),
           dist_coeffs := Some (NdArray (JArr [JArr [JNum 0, JNum 0, JNum 0, JNum 0, JNum 0]])),
           rvecs := Some [], tvecs := Some [] \<rparr>)
   \<and> save_calibration
       ((calibrator_init (9, 6) (5 / 2))
         \<lparr> objpoints := replicate 5 (objp (calibrator_init (9, 6) (5 / 2))),
           imgpoints := replicate 5 (NdArray (JArr (replicate 54 (JArr [JArr [JNum 0, JNum 0]])))),
           camera_matrix := Some (NdArray (JArr [JArr [JNum 640, JNum 0, JNum 320],
                    JArr [JNum 0, JNum 640, JNum 240], JArr [JNum 0, JNum 0, JNum 1]])),
           dist_coeffs := Some (NdArray (JArr [JArr [JNum 0, JNum 0, JNum 0, JNum 0, JNum 0]])),
           rvecs := Some [], tvecs := Some [] \<rparr>) =
     Inr (True, Some (JObj
       [(''camera_matrix'', JArr [JArr [JNum 640, JNum 0, JNum 320],
                    JArr [JNum 0, JNum 640, JNum 240], JArr [JNum 0, JNum 0, JNum 1]]),
        (''dist_coeffs'', JArr [JArr [JNum 0, JNum 0, JNum 0, JNum 0, JNum 0]]),
        (''image_shape'', JArr [JNum 54, JNum 1])]))"
  by (simp add: shape_def calibrate_def save_calibration_def json_shape_replicate
      replicate_head [of 5])

end
